theory Spec2Isabelle
  imports Main "HOL-Library.Word"
begin

unbundle bit_operations_syntax

section \<open>The range decoder of src/entdec.c\<close>

subsection \<open>Machine types and the declarations of entdec.h\<close>

text \<open>
  The C types of the decoder on a platform with 32-bit \<open>int\<close>: \<open>unsigned\<close>,
  \<open>ogg_uint32_t\<close> and \<open>int\<close> are 32-bit words; arithmetic wraps, \<open>unat\<close> reads a
  word as unsigned and \<open>sint\<close> as a two's complement \<open>int\<close>.
\<close>

type_synonym c_uint = "32 word"
type_synonym c_int = "32 word"
type_synonym byte = "8 word"

text \<open>
  Modelled from the spec: the window type \<open>od_ec_window\<close> and \<open>OD_EC_WINDOW_SIZE\<close> are
  declared in entdec.h, which is not under src/. The spec gives the window as a wide
  unsigned accumulator of a platform word of at least 32 bits; it is taken at 32 bits.
\<close>

type_synonym od_ec_window = "32 word"

definition OD_EC_WINDOW_SIZE :: c_int where
  "OD_EC_WINDOW_SIZE = 32"

definition OD_EC_LOTS_OF_BITS :: c_int where
  "OD_EC_LOTS_OF_BITS = 0x4000"

text \<open>
  Modelled from the spec: the macro \<open>OD_ILOG_NZ\<close> is declared in a header that is not
  under src/. The spec names its value the bit length of its argument: the number of
  binary digits up to the highest set bit, computed here by halving until zero.
\<close>

fun od_ilog :: "nat \<Rightarrow> nat" where
  "od_ilog n = (if n = 0 then 0 else Suc (od_ilog (n div 2)))"

declare od_ilog.simps [simp del]

definition OD_ILOG_NZ :: "c_uint \<Rightarrow> c_int" where
  "OD_ILOG_NZ x = of_nat (od_ilog (unat x))"

text \<open>
  Modelled from the spec: the macros \<open>OD_MAXI\<close> and \<open>OD_MINI\<close> are declared in a header
  that is not under src/. They are the larger and the smaller of their two operands;
  every use of \<open>OD_MAXI\<close> in entdec.c casts both operands to \<open>int\<close> (a signed
  comparison) and every use of \<open>OD_MINI\<close> has \<open>unsigned\<close> operands.
\<close>

definition OD_MAXI :: "c_int \<Rightarrow> c_int \<Rightarrow> c_int" where
  "OD_MAXI a b = (if sint a < sint b then b else a)"

definition OD_MINI :: "c_uint \<Rightarrow> c_uint \<Rightarrow> c_uint" where
  "OD_MINI a b = (if b < a then b else a)"

text \<open>
  The shifts of C, by a count held in an \<open>int\<close> or \<open>unsigned\<close>. C leaves a shift by a
  negative count, or by the width or more, undefined; the model reads the count as
  unsigned, so such a shift yields 0 (or the sign fill).
\<close>

definition shl :: "32 word \<Rightarrow> 32 word \<Rightarrow> 32 word" where
  "shl x n = push_bit (unat n) x"

definition shr :: "c_uint \<Rightarrow> 32 word \<Rightarrow> c_uint" where
  "shr x n = drop_bit (unat n) x"

definition sar :: "c_int \<Rightarrow> 32 word \<Rightarrow> c_int" where
  "sar x n = signed_drop_bit (unat n) x"

text \<open>
  Modelled from the spec: \<open>struct od_ec_dec\<close> is declared in entdec.h, which is not
  under src/. The fields are those entdec.c reads and writes, with the types of the
  locals they are copied to and from: \<open>buf\<close> is the borrowed input, read only.
\<close>

record od_ec_dec =
  buf :: "byte list"
  storage :: c_uint
  end_offs :: c_uint
  end_window :: od_ec_window
  nend_bits :: c_int
  nbits_total :: c_int
  offs :: c_uint
  rng :: c_uint
  val :: od_ec_window
  ext :: c_uint
  cnt :: c_int
  error :: c_int

subsection \<open>Normalization and initialization\<close>

text \<open>
  The refill loop of \<open>od_ec_dec_normalize\<close> and of \<open>od_ec_dec_init\<close>:
  \<^verbatim>\<open>for(s=...;s>=0;){ if(offs>=storage){c=OD_EC_LOTS_OF_BITS;break;}
      _dif|=(od_ec_window)buf[offs++]<<s; c+=8; s-=8; }\<close>
  It yields the window, the bit count and the offset it leaves.
\<close>

function od_ec_dec_refill ::
  "byte list \<Rightarrow> c_uint \<Rightarrow> od_ec_window \<Rightarrow> c_int \<Rightarrow> c_int \<Rightarrow> c_uint
    \<Rightarrow> od_ec_window \<times> c_int \<times> c_uint" where
  "od_ec_dec_refill b stor dif c s ofs =
     (if 0 \<le> sint s then
        (if stor \<le> ofs then (dif, OD_EC_LOTS_OF_BITS, ofs)
         else od_ec_dec_refill b stor (dif OR shl (ucast (b ! unat ofs)) s)
                (c + 8) (s - 8) (ofs + 1))
      else (dif, c, ofs))"
  by pat_completeness auto
termination
proof (relation "measure (\<lambda>(b, stor, dif, c, s, ofs). unat stor - unat ofs)")
  fix stor ofs :: "32 word"
  assume "\<not> stor \<le> ofs"
  then have "unat stor - unat (ofs + 1) < unat stor - unat ofs"
    by unat_arith
  then show "((b, stor, dif', c', s', ofs + 1), (b, stor, dif, c, s, ofs))
             \<in> measure (\<lambda>(b, stor, dif, c, s, ofs). unat stor - unat ofs)"
    for b :: "byte list" and dif dif' c c' s s' :: "32 word"
    by simp
qed simp

declare od_ec_dec_refill.simps [simp del]

definition od_ec_dec_normalize ::
  "od_ec_dec \<Rightarrow> od_ec_window \<Rightarrow> c_uint \<Rightarrow> c_int \<Rightarrow> c_int \<times> od_ec_dec" where
  "od_ec_dec_normalize st dif0 rng0 ret =
     (let d = 16 - OD_ILOG_NZ rng0;
          c = cnt st - d;
          dif = shl dif0 d;
          (dif', c', offs') =
            (if sint c < 0
             then od_ec_dec_refill (buf st) (storage st) dif c
                    (OD_EC_WINDOW_SIZE - 9 - (c + 15)) (offs st)
             else (dif, c, offs st))
      in (ret, st\<lparr>offs := offs', nbits_total := nbits_total st + d, val := dif',
                  rng := shl rng0 d, cnt := c'\<rparr>))"

text \<open>
  \<open>od_ec_dec_init\<close> writes every field but \<open>ext\<close>, which keeps what the memory it is
  given held: the model takes that memory as the record \<open>st\<close>.
\<close>

definition od_ec_dec_init :: "od_ec_dec \<Rightarrow> byte list \<Rightarrow> c_uint \<Rightarrow> od_ec_dec" where
  "od_ec_dec_init st b stor =
     (let (dif, c, ofs) = od_ec_dec_refill b stor 0 (- 15) (OD_EC_WINDOW_SIZE - 9) 0
      in st\<lparr>buf := b, storage := stor, end_offs := 0, end_window := 0, nend_bits := 0,
            nbits_total := 1, offs := ofs, rng := 0x8000, cnt := c, val := dif,
            error := 0\<rparr>)"

subsection \<open>Raw bits from the tail of the buffer\<close>

text \<open>
  The refill loop of \<open>od_ec_dec_bits\<close>, a do-while:
  \<^verbatim>\<open>do{ if(end_offs>=storage){available=OD_EC_LOTS_OF_BITS;break;}
      window|=buf[storage-++end_offs]<<available; available+=8; }
  while(available<=OD_EC_WINDOW_SIZE-8);\<close>
\<close>

function od_ec_dec_bits_refill ::
  "byte list \<Rightarrow> c_uint \<Rightarrow> od_ec_window \<Rightarrow> c_int \<Rightarrow> c_uint
    \<Rightarrow> od_ec_window \<times> c_int \<times> c_uint" where
  "od_ec_dec_bits_refill b stor window available eofs =
     (if stor \<le> eofs then (window, OD_EC_LOTS_OF_BITS, eofs)
      else
        (let eofs' = eofs + 1;
             window' = window OR shl (ucast (b ! unat (stor - eofs'))) available;
             available' = available + 8
         in if sint available' \<le> sint (OD_EC_WINDOW_SIZE - 8)
            then od_ec_dec_bits_refill b stor window' available' eofs'
            else (window', available', eofs')))"
  by pat_completeness auto
termination
proof (relation "measure (\<lambda>(b, stor, window, available, eofs). unat stor - unat eofs)")
  fix stor eofs x :: "32 word"
  assume "\<not> stor \<le> eofs" and "x = eofs + 1"
  then have "unat stor - unat x < unat stor - unat eofs"
    by unat_arith
  then show "((b, stor, w', a', x), (b, stor, w, a, eofs))
             \<in> measure (\<lambda>(b, stor, window, available, eofs). unat stor - unat eofs)"
    for b :: "byte list" and w w' a a' :: "32 word"
    by simp
qed simp

declare od_ec_dec_bits_refill.simps [simp del]

definition od_ec_dec_bits :: "od_ec_dec \<Rightarrow> c_uint \<Rightarrow> c_uint \<times> od_ec_dec" where
  "od_ec_dec_bits st bits =
     (let window = end_window st;
          available = nend_bits st;
          (window', available', st') =
            (if available < bits
             then (let (w, a, e) = od_ec_dec_bits_refill (buf st) (storage st)
                                     window available (end_offs st)
                   in (w, a, st\<lparr>end_offs := e\<rparr>))
             else (window, available, st));
          ret = window' AND (shl 1 bits - 1)
      in (ret, st'\<lparr>end_window := shr window' bits, nend_bits := available' - bits,
                   nbits_total := nbits_total st' + bits\<rparr>))"

subsection \<open>Symbol decoding and update\<close>

definition od_ec_decode_normalized :: "od_ec_dec \<Rightarrow> c_uint \<Rightarrow> c_uint \<times> od_ec_dec" where
  "od_ec_decode_normalized st ft0 =
     (let dif = shr (val st) (OD_EC_WINDOW_SIZE - 16);
          r = rng st;
          s = (if shl ft0 1 \<le> r then 1 else 0);
          ft = shl ft0 s;
          d = r - ft
      in (sar (OD_MAXI (shr dif 1) (dif - d)) s, st\<lparr>ext := s\<rparr>))"

definition od_ec_decode :: "od_ec_dec \<Rightarrow> c_uint \<Rightarrow> c_uint \<times> od_ec_dec" where
  "od_ec_decode st ft0 =
     (let dif = shr (val st) (OD_EC_WINDOW_SIZE - 16);
          r = rng st;
          s0 = 15 - OD_ILOG_NZ (ft0 - 1);
          ft1 = shl ft0 s0;
          (ft, s) = (if shl ft1 1 \<le> r then (shl ft1 1, s0 + 1) else (ft1, s0));
          d = r - ft
      in (sar (OD_MAXI (shr dif 1) (dif - d)) s, st\<lparr>ext := s\<rparr>))"

definition od_ec_decode_bin_normalized :: "od_ec_dec \<Rightarrow> c_uint \<times> od_ec_dec" where
  "od_ec_decode_bin_normalized st =
     (let dif = shr (val st) (OD_EC_WINDOW_SIZE - 16);
          r = rng st;
          d = r - 32768
      in (OD_MAXI (shr dif 1) (dif - d), st\<lparr>ext := 0\<rparr>))"

definition od_ec_decode_bin :: "od_ec_dec \<Rightarrow> c_uint \<Rightarrow> c_uint \<times> od_ec_dec" where
  "od_ec_decode_bin st ftb =
     (let dif = shr (val st) (OD_EC_WINDOW_SIZE - 16);
          r = rng st;
          d = r - 32768;
          s = 15 - ftb
      in (sar (OD_MAXI (shr dif 1) (dif - d)) s, st\<lparr>ext := s\<rparr>))"

definition od_ec_dec_update :: "od_ec_dec \<Rightarrow> c_uint \<Rightarrow> c_uint \<Rightarrow> c_uint \<Rightarrow> od_ec_dec" where
  "od_ec_dec_update st fl0 fh0 ft0 =
     (let dif = val st;
          r = rng st;
          s = ext st;
          fl = shl fl0 s;
          fh = shl fh0 s;
          ft = shl ft0 s;
          d = r - ft;
          u = fl + OD_MINI fl d;
          v = fh + OD_MINI fh d;
          r' = v - u;
          dif' = dif - shl u (OD_EC_WINDOW_SIZE - 16)
      in snd (od_ec_dec_normalize st dif' r' 0))"

definition od_ec_dec_bit_logp :: "od_ec_dec \<Rightarrow> c_uint \<Rightarrow> c_int \<times> od_ec_dec" where
  "od_ec_dec_bit_logp st logp =
     (let dif = val st;
          r = rng st;
          v0 = 32768 - shl 1 (15 - logp);
          v = v0 + OD_MINI v0 (r - 32768);
          vw = shl v (OD_EC_WINDOW_SIZE - 16);
          ret = (if vw \<le> dif then 1 else 0);
          dif' = (if ret \<noteq> 0 then dif - vw else dif);
          r' = (if ret \<noteq> 0 then r - v else v)
      in od_ec_dec_normalize st dif' r' ret)"

subsection \<open>Inverse CDF tables\<close>

text \<open>
  The table walk \<^verbatim>\<open>for(ret=0;_icdf[ret]>=q;ret++)fl=_icdf[ret];\<close> over a table given
  as the list of its entries (promoted to \<open>unsigned\<close> for the comparison). It yields the
  index it stops at, \<open>fl\<close> and the entry there; a read past the last entry of the
  table is \<open>None\<close>.
\<close>

fun od_ec_icdf_scan ::
  "c_uint list \<Rightarrow> c_uint \<Rightarrow> c_uint \<Rightarrow> nat \<Rightarrow> (nat \<times> c_uint \<times> c_uint) option" where
  "od_ec_icdf_scan [] q fl ret = None"
| "od_ec_icdf_scan (x # xs) q fl ret =
     (if q \<le> x then od_ec_icdf_scan xs q x (Suc ret) else Some (ret, fl, x))"

text \<open>The frequency \<open>q\<close> that \<open>od_ec_dec_icdf_ft\<close> and \<open>od_ec_dec_icdf16_ft\<close> walk the
  table with, and the scale \<open>s\<close> and the slack \<open>d\<close> computed on the way.\<close>

definition od_ec_icdf_ft_q :: "od_ec_dec \<Rightarrow> c_uint \<Rightarrow> c_uint \<times> c_int \<times> c_uint" where
  "od_ec_icdf_ft_q st ft0 =
     (let dif = val st;
          r = rng st;
          s0 = 15 - OD_ILOG_NZ (ft0 - 1);
          ft1 = shl ft0 s0;
          (ft, s) = (if shl ft1 1 \<le> r then (shl ft1 1, s0 + 1) else (ft1, s0));
          d = r - ft;
          q = sar (OD_MAXI (shr dif (OD_EC_WINDOW_SIZE - 15))
                     (shr dif (OD_EC_WINDOW_SIZE - 16) - d)) s
      in (ft0 - q, s, d))"

text \<open>The body shared, word for word, by \<open>od_ec_dec_icdf_ft\<close> (a table of
  \<open>unsigned char\<close>) and \<open>od_ec_dec_icdf16_ft\<close> (a table of \<open>ogg_uint16_t\<close>).\<close>

definition od_ec_icdf_ft_body ::
  "od_ec_dec \<Rightarrow> c_uint list \<Rightarrow> c_uint \<Rightarrow> (c_int \<times> od_ec_dec) option" where
  "od_ec_icdf_ft_body st icdf ft0 =
     (let (q, s, d) = od_ec_icdf_ft_q st ft0
      in case od_ec_icdf_scan icdf q ft0 0 of
           None \<Rightarrow> None
         | Some (ret, fl0, x) \<Rightarrow>
             (let fl = shl (ft0 - fl0) s;
                  fh = shl (ft0 - x) s;
                  u = fl + OD_MINI fl d;
                  v = fh + OD_MINI fh d;
                  r' = v - u;
                  dif' = val st - shl u (OD_EC_WINDOW_SIZE - 16)
              in Some (od_ec_dec_normalize st dif' r' (of_nat ret))))"

definition od_ec_dec_icdf_ft ::
  "od_ec_dec \<Rightarrow> byte list \<Rightarrow> c_uint \<Rightarrow> (c_int \<times> od_ec_dec) option" where
  "od_ec_dec_icdf_ft st icdf ft0 = od_ec_icdf_ft_body st (map ucast icdf) ft0"

definition od_ec_dec_icdf16_ft ::
  "od_ec_dec \<Rightarrow> 16 word list \<Rightarrow> c_uint \<Rightarrow> (c_int \<times> od_ec_dec) option" where
  "od_ec_dec_icdf16_ft st icdf ft0 = od_ec_icdf_ft_body st (map ucast icdf) ft0"

text \<open>The frequency \<open>q\<close> of \<open>od_ec_dec_icdf\<close> and \<open>od_ec_dec_icdf16\<close>, with \<open>s\<close> and
  \<open>d\<close>.\<close>

definition od_ec_icdf_q :: "od_ec_dec \<Rightarrow> c_uint \<Rightarrow> c_uint \<times> c_int \<times> c_uint" where
  "od_ec_icdf_q st ftb =
     (let dif = val st;
          r = rng st;
          s = 15 - ftb;
          d = r - 32768;
          q = sar (OD_MAXI (shr dif (OD_EC_WINDOW_SIZE - 15))
                     (shr dif (OD_EC_WINDOW_SIZE - 16) - d)) s
      in (shl 1 ftb - q, s, d))"

text \<open>The body shared by \<open>od_ec_dec_icdf\<close> and \<open>od_ec_dec_icdf16\<close>.\<close>

definition od_ec_icdf_body ::
  "od_ec_dec \<Rightarrow> c_uint list \<Rightarrow> c_uint \<Rightarrow> (c_int \<times> od_ec_dec) option" where
  "od_ec_icdf_body st icdf ftb =
     (let (q, s, d) = od_ec_icdf_q st ftb
      in case od_ec_icdf_scan icdf q (shl 1 ftb) 0 of
           None \<Rightarrow> None
         | Some (ret, fl0, x) \<Rightarrow>
             (let fl = 32768 - shl fl0 s;
                  fh = 32768 - shl x s;
                  u = fl + OD_MINI fl d;
                  v = fh + OD_MINI fh d;
                  r' = v - u;
                  dif' = val st - shl u (OD_EC_WINDOW_SIZE - 16)
              in Some (od_ec_dec_normalize st dif' r' (of_nat ret))))"

definition od_ec_dec_icdf ::
  "od_ec_dec \<Rightarrow> byte list \<Rightarrow> c_uint \<Rightarrow> (c_int \<times> od_ec_dec) option" where
  "od_ec_dec_icdf st icdf ftb = od_ec_icdf_body st (map ucast icdf) ftb"

definition od_ec_dec_icdf16 ::
  "od_ec_dec \<Rightarrow> 16 word list \<Rightarrow> c_uint \<Rightarrow> (c_int \<times> od_ec_dec) option" where
  "od_ec_dec_icdf16 st icdf ftb = od_ec_icdf_body st (map ucast icdf) ftb"

subsection \<open>Uniform integers\<close>

text \<open>
  \<open>OD_EC_UINT_BITS\<close> is declared in a header that is not under src/, and the spec
  leaves the threshold open: it is the parameter \<open>ub\<close> of the model.

  The first branch of \<open>od_ec_dec_uint\<close> up to the comparison \<open>t<=_ft\<close>: the decremented
  \<open>_ft\<close>, the combined value \<open>t\<close> and the state after the three calls.
\<close>

definition od_ec_dec_uint_split ::
  "c_int \<Rightarrow> od_ec_dec \<Rightarrow> c_uint \<Rightarrow> c_uint \<times> c_uint \<times> od_ec_dec" where
  "od_ec_dec_uint_split ub st ft0 =
     (let ftm = ft0 - 1;
          ftb = OD_ILOG_NZ ftm - ub;
          ft = shl (shr ftm ftb + 1) (15 - ub);
          (x, st1) = od_ec_decode_normalized st ft;
          fs = x AND NOT (shl 1 (15 - ub) - 1);
          st2 = od_ec_dec_update st1 fs (fs + shl 1 (15 - ub)) ft;
          (lo, st3) = od_ec_dec_bits st2 ftb;
          t = shl (shr fs (15 - ub)) ftb OR lo
      in (ftm, t, st3))"

definition od_ec_dec_uint :: "c_int \<Rightarrow> od_ec_dec \<Rightarrow> c_uint \<Rightarrow> c_uint \<times> od_ec_dec" where
  "od_ec_dec_uint ub st ft0 =
     (if shl 1 ub < ft0 then
        (let (ftm, t, st3) = od_ec_dec_uint_split ub st ft0
         in if t \<le> ftm then (t, st3) else (ftm, st3\<lparr>error := 1\<rparr>))
      else
        (let (fs, st1) = od_ec_decode st ft0;
             st2 = od_ec_dec_update st1 fs (fs + 1) ft0
         in (fs, st2)))"

text \<open>A decoder record before \<open>od_ec_dec_init\<close> has run: zeroed memory.\<close>

definition st0 :: od_ec_dec where
  "st0 = \<lparr>buf = [], storage = 0, end_offs = 0, end_window = 0, nend_bits = 0,
          nbits_total = 0, offs = 0, rng = 0, val = 0, ext = 0, cnt = 0, error = 0\<rparr>"

(*DEFS-END*)

section \<open>Properties\<close>

subsection \<open>The bit length\<close>

lemma od_ilog_bounds: "0 < n \<Longrightarrow> 2 ^ (od_ilog n - 1) \<le> n \<and> n < 2 ^ od_ilog n"
proof (induction n rule: od_ilog.induct)
  case (1 n)
  show ?case
  proof (cases "n div 2 = 0")
    case True
    with 1 have "n = 1" by presburger
    then show ?thesis by (simp add: od_ilog.simps)
  next
    case False
    then have pos: "0 < n div 2" by simp
    with 1 have ih: "2 ^ (od_ilog (n div 2) - 1) \<le> n div 2" "n div 2 < 2 ^ od_ilog (n div 2)"
      by simp_all
    have k: "0 < od_ilog (n div 2)" using pos by (subst od_ilog.simps) simp
    have e: "od_ilog n = Suc (od_ilog (n div 2))" using 1(2) by (subst od_ilog.simps) simp
    have "2 * 2 ^ (od_ilog (n div 2) - 1) \<le> n" using ih(1) by linarith
    moreover have "(2::nat) * 2 ^ (od_ilog (n div 2) - 1) = 2 ^ od_ilog (n div 2)"
      using k by (cases "od_ilog (n div 2)") simp_all
    moreover have "n < 2 * 2 ^ od_ilog (n div 2)" using ih(2) by linarith
    ultimately show ?thesis using e by simp
  qed
qed

subsection \<open>What normalization and raw extraction leave alone\<close>

lemma normalize_fst: "fst (od_ec_dec_normalize st dif0 rng0 ret) = ret"
  by (simp add: od_ec_dec_normalize_def Let_def split: prod.splits)

lemma normalize_nbits_total:
  "nbits_total (snd (od_ec_dec_normalize st dif0 rng0 ret)) =
     nbits_total st + (16 - OD_ILOG_NZ rng0)"
  by (simp add: od_ec_dec_normalize_def Let_def split: prod.splits)

lemma normalize_error: "error (snd (od_ec_dec_normalize st dif0 rng0 ret)) = error st"
  by (simp add: od_ec_dec_normalize_def Let_def split: prod.splits)

lemma bits_error: "error (snd (od_ec_dec_bits st n)) = error st"
  by (simp add: od_ec_dec_bits_def Let_def split: prod.splits)

text \<open>
  C7: \<open>od_ec_dec_normalize\<close> returns its argument \<open>_ret\<close> unchanged and adds exactly
  \<open>d = 16 - k\<close> to \<open>nbits_total\<close>, where \<open>k\<close> is the bit length of the new range
  (\<open>2 ^ (k - 1) \<le> _rng < 2 ^ k\<close>), for every decoder state, window and nonzero range.
\<close>

theorem od_ec_dec_normalize_passthrough:
  assumes "rng0 \<noteq> 0"
  shows "fst (od_ec_dec_normalize st dif0 rng0 ret) = ret \<and>
         (\<exists>k. 2 ^ (k - 1) \<le> unat rng0 \<and> unat rng0 < 2 ^ k \<and>
              nbits_total (snd (od_ec_dec_normalize st dif0 rng0 ret)) =
                nbits_total st + (16 - of_nat k))"
proof -
  from assms have "0 < unat rng0" by (simp add: unat_gt_0)
  then have "2 ^ (od_ilog (unat rng0) - 1) \<le> unat rng0 \<and> unat rng0 < 2 ^ od_ilog (unat rng0)"
    by (rule od_ilog_bounds)
  moreover have "nbits_total (snd (od_ec_dec_normalize st dif0 rng0 ret)) =
                   nbits_total st + (16 - of_nat (od_ilog (unat rng0)))"
    by (simp add: normalize_nbits_total OD_ILOG_NZ_def)
  ultimately show ?thesis
    by (intro conjI exI [of _ "od_ilog (unat rng0)"]) (simp_all add: normalize_fst)
qed

theorem od_ec_dec_normalize_passthrough_witness:
  "(0x1234 :: c_uint) \<noteq> 0 \<and>
   fst (od_ec_dec_normalize (od_ec_dec_init st0 [0x12, 0x34, 0x56, 0x78] 4) 0x5678 0x1234 7) = 7 \<and>
   (\<exists>k. 2 ^ (k - 1) \<le> unat (0x1234 :: c_uint) \<and> unat (0x1234 :: c_uint) < 2 ^ k \<and>
        nbits_total (snd (od_ec_dec_normalize (od_ec_dec_init st0 [0x12, 0x34, 0x56, 0x78] 4)
                            0x5678 0x1234 7)) =
          nbits_total (od_ec_dec_init st0 [0x12, 0x34, 0x56, 0x78] 4) + (16 - of_nat k))"
proof -
  have h: "(0x1234 :: c_uint) \<noteq> 0" by simp
  from h od_ec_dec_normalize_passthrough [OF h] show ?thesis by blast
qed

text \<open>
  C10: \<open>od_ec_dec_bits\<close> with a width of 0 returns 0 and leaves every field of the
  decoder as it was (\<open>end_window\<close>, \<open>nend_bits\<close>, \<open>end_offs\<close> and \<open>nbits_total\<close> among
  them): no byte is read from the tail of the buffer.
\<close>

theorem od_ec_dec_bits_zero_width: "od_ec_dec_bits st 0 = (0, st)"
  by (simp add: od_ec_dec_bits_def shl_def shr_def)

text \<open>
  C9: on a decoder initialized with \<open>storage = 0\<close> (an empty buffer),
  \<open>od_ec_dec_bits\<close> with a width of 8 returns 0, leaves the fault flag \<open>error\<close> at 0 and
  adds exactly 8 to \<open>nbits_total\<close>.
\<close>

theorem od_ec_dec_bits_exhausted:
  "fst (od_ec_dec_bits (od_ec_dec_init st [] 0) 8) = 0 \<and>
   error (snd (od_ec_dec_bits (od_ec_dec_init st [] 0) 8)) = 0 \<and>
   nbits_total (od_ec_dec_init st [] 0) = 1 \<and>
   nbits_total (snd (od_ec_dec_bits (od_ec_dec_init st [] 0) 8)) =
     nbits_total (od_ec_dec_init st [] 0) + 8"
  apply (simp add: od_ec_dec_bits_def od_ec_dec_init_def Let_def split: prod.splits)
  apply (simp add: od_ec_dec_bits_refill.simps shl_def)
  done

end
